theory Spec2Isabelle
  imports Main "HOL-Library.Word"
begin

unbundle bit_operations_syntax

section \<open>PPCDebugInterface: the debugger facade of the emulated PowerPC\<close>

text \<open>
  A shallow embedding of \<^verbatim>\<open>Source/Core/Core/Debugger/PPCDebugInterface.cpp\<close>.
  The facade forwards to process-wide collaborators (the core's run state, the emulated
  memory, the audio RAM, the disassembler, the symbol database, the breakpoint and
  memcheck containers). They are gathered in one record, \<open>Machine\<close>; a method that
  mutates a container returns the updated record, and a method that reads the emulated
  memory returns its result together with the set of memory accesses it made.
\<close>

subsection \<open>Machine integers\<close>

text \<open>
  \<^verbatim>\<open>u8\<close>, \<^verbatim>\<open>u32\<close> and \<^verbatim>\<open>unsigned int\<close> are words of 8 and 32 bits. The \<^verbatim>\<open>int\<close> that selects a
  memory space is a 32-bit word too (read in two's complement by \<open>sint\<close>); the code only
  compares it with the constants 0 and 1.
\<close>

type_synonym u8 = "8 word"
type_synonym u32 = "32 word"
type_synonym s32 = "32 word"

subsection \<open>Types declared outside this file\<close>

text \<open>
  Modelled from the spec: the enumeration \<^verbatim>\<open>Core::State\<close> is declared in Core.h, which is
  not among the sources. The code only compares the state with \<^verbatim>\<open>Core::State::Paused\<close>;
  the other members stand for the states the spec names (not yet started, actively
  running, mid-teardown, starting up), and nothing below tells them apart.
\<close>

datatype State = Uninitialized | Paused | Running | Stopping | Starting

text \<open>
  Modelled from the spec: \<^verbatim>\<open>Symbol::Type\<close> is declared in SymbolDB.h, which is not among
  the sources. The code names the member \<^verbatim>\<open>Function\<close>; by the spec a symbol has a
  function/non-function kind.
\<close>

datatype Symbol_Type = Function | Data

text \<open>
  Modelled from the spec: \<^verbatim>\<open>Symbol\<close> is declared in SymbolDB.h, which is not among the
  sources. Of its members the code reads \<^verbatim>\<open>type\<close> and \<^verbatim>\<open>index\<close>. By the spec the index is
  the symbol's stable numeric index in the database: a position, counted from 0, so a
  natural number, on which the \<^verbatim>\<open>%\<close> of C++ is \<open>mod\<close>.
\<close>

record Symbol =
  symbol_type :: Symbol_Type
  index :: nat

text \<open>
  Modelled from the spec: \<^verbatim>\<open>TMemCheck\<close> is declared in BreakPoints.h, which is not among
  the sources. The fields are those of the spec's data model, which are also the six
  members that \<^verbatim>\<open>ToggleMemCheck\<close> assigns.
\<close>

record TMemCheck =
  start_address :: u32
  end_address :: u32
  is_break_on_read :: bool
  is_break_on_write :: bool
  log_on_hit :: bool
  break_on_hit :: bool

subsection \<open>The collaborators\<close>

text \<open>
  Each field is named after the call the source makes:
  \<^verbatim>\<open>Core::IsRunningAndStarted()\<close>, \<^verbatim>\<open>Core::GetState()\<close>, \<^verbatim>\<open>PowerPC::HostIsRAMAddress\<close>,
  \<^verbatim>\<open>PowerPC::HostRead_U32\<close>, \<^verbatim>\<open>PowerPC::HostRead_Instruction\<close>, \<^verbatim>\<open>DSP::ReadARAM\<close>,
  \<^verbatim>\<open>GekkoDisassembler::Disassemble\<close>, \<^verbatim>\<open>g_symbolDB.GetSymbolFromAddr\<close> (a null pointer
  is \<open>None\<close>), \<^verbatim>\<open>PowerPC::breakpoints\<close> and \<^verbatim>\<open>PowerPC::memchecks\<close>. The memory, the
  disassembler and the symbol database are arbitrary functions: nothing is assumed of
  what they return.
\<close>

record Machine =
  IsRunningAndStarted :: bool
  GetState :: State
  HostIsRAMAddress :: "u32 \<Rightarrow> bool"
  HostRead_U32 :: "u32 \<Rightarrow> u32"
  HostRead_Instruction :: "u32 \<Rightarrow> u32"
  ReadARAM :: "u32 \<Rightarrow> u8"
  GekkoDisassemble :: "u32 \<Rightarrow> u32 \<Rightarrow> string"
  GetSymbolFromAddr :: "u32 \<Rightarrow> Symbol option"
  breakpoints :: "u32 set"
  memchecks :: "TMemCheck list"

text \<open>
  The accesses to the emulated memory a method can make: the RAM-validity query, a 32-bit
  read, an instruction fetch, a byte read of the audio RAM. The operands of \<^verbatim>\<open>|\<close> in C++
  are evaluated in no fixed order, so the accesses of one call are kept as a set.
\<close>

datatype access =
    RAM_check u32
  | U32_read u32
  | Instruction_read u32
  | ARAM_read u32

subsection \<open>The breakpoint container\<close>

text \<open>
  The class \<^verbatim>\<open>BreakPoints\<close> behind \<^verbatim>\<open>PowerPC::breakpoints\<close> is defined in BreakPoints.cpp,
  which is not among the sources. By the spec a breakpoint is a bare address, held in a
  set keyed by address: an address is present at most once.
\<close>

text \<open>
  Modelled from the spec: \<^verbatim>\<open>BreakPoints::IsAddressBreakPoint\<close>, not among the sources.
  It tells whether the address is in the set.
\<close>

definition BreakPoints_IsAddressBreakPoint :: "u32 set \<Rightarrow> u32 \<Rightarrow> bool" where
  "BreakPoints_IsAddressBreakPoint bps address = (address \<in> bps)"

text \<open>
  Modelled from the spec: \<^verbatim>\<open>BreakPoints::Add\<close>, not among the sources. It is idempotent:
  adding an address already present is a no-op.
\<close>

definition BreakPoints_Add :: "u32 set \<Rightarrow> u32 \<Rightarrow> u32 set" where
  "BreakPoints_Add bps address = insert address bps"

text \<open>
  Modelled from the spec: \<^verbatim>\<open>BreakPoints::Remove\<close>, not among the sources. It is a no-op
  on an absent address.
\<close>

definition BreakPoints_Remove :: "u32 set \<Rightarrow> u32 \<Rightarrow> u32 set" where
  "BreakPoints_Remove bps address = bps - {address}"

subsection \<open>The memcheck container\<close>

text \<open>
  The class \<^verbatim>\<open>MemChecks\<close> behind \<^verbatim>\<open>PowerPC::memchecks\<close> is defined in BreakPoints.cpp, which
  is not among the sources. By the spec the records are kept in the order they were
  added, and ranges that overlap are not merged. A record's range is
  \<open>[start_address, end_address]\<close>, both ends included: a point check has \<open>start = end\<close>.
\<close>

text \<open>
  Modelled from the spec: the test behind \<^verbatim>\<open>GetMemCheck\<close>, that the record's range
  overlaps \<open>[address, address + size)\<close>. The two intervals share a point exactly when
  the larger of their lower ends lies in both (lemma \<open>overlaps_interval\<close> below); the
  arithmetic is on the unsigned values, without wrap-around.
\<close>

definition overlaps :: "TMemCheck \<Rightarrow> u32 \<Rightarrow> nat \<Rightarrow> bool" where
  "overlaps mc address sz =
     (max (unat (start_address mc)) (unat address) \<le> unat (end_address mc) \<and>
      max (unat (start_address mc)) (unat address) < unat address + sz)"

text \<open>
  Modelled from the spec: the test behind \<^verbatim>\<open>Remove\<close>, that the record's range contains
  the address.
\<close>

definition contains_address :: "TMemCheck \<Rightarrow> u32 \<Rightarrow> bool" where
  "contains_address mc address = (start_address mc \<le> address \<and> address \<le> end_address mc)"

text \<open>
  Modelled from the spec: \<^verbatim>\<open>MemChecks::GetMemCheck(address, size = 1)\<close>, not among the
  sources. It returns the first range overlapping \<open>[address, address + size)\<close>, or none
  (a null pointer in the code).
\<close>

definition MemChecks_GetMemCheck :: "TMemCheck list \<Rightarrow> u32 \<Rightarrow> nat \<Rightarrow> TMemCheck option" where
  "MemChecks_GetMemCheck mcs address sz = find (\<lambda>mc. overlaps mc address sz) mcs"

text \<open>
  Modelled from the spec: \<^verbatim>\<open>MemChecks::Add\<close>, not among the sources. It appends, and
  merges nothing.
\<close>

definition MemChecks_Add :: "TMemCheck list \<Rightarrow> TMemCheck \<Rightarrow> TMemCheck list" where
  "MemChecks_Add mcs mc = mcs @ [mc]"

text \<open>
  Modelled from the spec: \<^verbatim>\<open>MemChecks::Remove(address)\<close>, not among the sources. It
  removes a record whose range contains the address: one match, the first found, not
  all of them.
\<close>

fun MemChecks_Remove :: "TMemCheck list \<Rightarrow> u32 \<Rightarrow> TMemCheck list" where
  "MemChecks_Remove [] address = []"
| "MemChecks_Remove (mc # mcs) address =
     (if contains_address mc address then mcs else mc # MemChecks_Remove mcs address)"

subsection \<open>Helpers declared outside this file\<close>

text \<open>
  Modelled from the spec: \<^verbatim>\<open>UGeckoInstruction\<close> is declared in Gekko.h, which is not among
  the sources. Its member \<^verbatim>\<open>OPCD\<close> is the primary opcode field of the instruction word:
  the top six bits of the 32.
\<close>

definition OPCD :: "u32 \<Rightarrow> u32" where
  "OPCD hex = drop_bit 26 hex"

text \<open>
  Modelled from the spec: \<^verbatim>\<open>StringFromFormat\<close> is defined in StringUtil.cpp, which is not
  among the sources; it formats as \<^verbatim>\<open>printf\<close> does. The one format the file uses is
  \<^verbatim>\<open>"%08X%s"\<close>: the unsigned value in upper-case hexadecimal (\<open>hex_upper\<close>: at least one
  digit, no leading zero), padded on the left with zeros to at least eight characters
  (\<open>zero_pad\<close>), then the string.
\<close>

fun hex_upper :: "nat \<Rightarrow> string" where
  "hex_upper n =
     (if n < 16 then [''0123456789ABCDEF'' ! n]
      else hex_upper (n div 16) @ [''0123456789ABCDEF'' ! (n mod 16)])"

declare hex_upper.simps [simp del]

definition zero_pad :: "nat \<Rightarrow> string \<Rightarrow> string" where
  "zero_pad width s = replicate (width - length s) CHR ''0'' @ s"

definition StringFromFormat_08X_s :: "u32 \<Rightarrow> string \<Rightarrow> string" where
  "StringFromFormat_08X_s x s = zero_pad 8 (hex_upper (unat x)) @ s"

subsection \<open>Notions used to state the properties\<close>

text \<open>
  These are not code of the program. \<open>hex_value\<close> reads a string of hexadecimal digits
  back as a number, to say which value a formatted string shows; \<open>ends_with s t\<close> says
  that the string \<open>s\<close> ends with the literal \<open>t\<close>.
\<close>

definition hex_digit_value :: "char \<Rightarrow> nat" where
  "hex_digit_value c =
     (let k = (of_char c :: nat) in if 48 \<le> k \<and> k \<le> 57 then k - 48 else k - 55)"

definition hex_value :: "string \<Rightarrow> nat" where
  "hex_value s = foldl (\<lambda>acc c. 16 * acc + hex_digit_value c) 0 s"

definition ends_with :: "string \<Rightarrow> string \<Rightarrow> bool" where
  "ends_with s t = (length t \<le> length s \<and> drop (length s - length t) s = t)"

subsection \<open>The methods of PPCDebugInterface\<close>

definition IsAlive :: "Machine \<Rightarrow> bool" where
  "IsAlive m = IsRunningAndStarted m"

definition Disassemble :: "Machine \<Rightarrow> u32 \<Rightarrow> string \<times> access set" where
  "Disassemble m address =
     (if \<not> IsAlive m then ('''', {})
      else if GetState m = Paused then
        (if \<not> HostIsRAMAddress m address then (''(No RAM here)'', {RAM_check address})
         else
           (let op = HostRead_Instruction m address;
                disasm = GekkoDisassemble m op address
            in (if OPCD op = 1 then disasm @ '' (hle)'' else disasm,
                {RAM_check address, Instruction_read address})))
      else (''<unknown>'', {}))"

definition ReadMemory :: "Machine \<Rightarrow> u32 \<Rightarrow> u32 \<times> access set" where
  "ReadMemory m address = (HostRead_U32 m address, {U32_read address})"

text \<open>
  \<^verbatim>\<open>DSP::ReadARAM\<close> returns a byte, which the shift promotes to a 32-bit integer; the
  result is returned as \<^verbatim>\<open>unsigned int\<close>, so the bits are those of the 32-bit word.
  \<^verbatim>\<open>address + 1\<close> is unsigned and wraps.
\<close>

definition ReadExtraMemory :: "Machine \<Rightarrow> s32 \<Rightarrow> u32 \<Rightarrow> u32 \<times> access set" where
  "ReadExtraMemory m memory address =
     (if memory = 0 then (HostRead_U32 m address, {U32_read address})
      else if memory = 1 then
        (push_bit 24 (ucast (ReadARAM m address)) OR
         push_bit 16 (ucast (ReadARAM m (address + 1))) OR
         push_bit 8 (ucast (ReadARAM m (address + 2))) OR
         ucast (ReadARAM m (address + 3)),
         {ARAM_read address, ARAM_read (address + 1), ARAM_read (address + 2),
          ARAM_read (address + 3)})
      else (0, {}))"

text \<open>
  \<^verbatim>\<open>is_aram || PowerPC::HostIsRAMAddress(address)\<close> evaluates its right operand only when
  the left one is false.
\<close>

definition GetRawMemoryString :: "Machine \<Rightarrow> s32 \<Rightarrow> u32 \<Rightarrow> string \<times> access set" where
  "GetRawMemoryString m memory address =
     (if IsAlive m then
        (let is_aram = (memory \<noteq> 0);
             checked = (if is_aram then {} else {RAM_check address})
         in if is_aram \<or> HostIsRAMAddress m address then
              (StringFromFormat_08X_s (fst (ReadExtraMemory m memory address))
                 (if is_aram then '' (ARAM)'' else ''''),
               checked \<union> snd (ReadExtraMemory m memory address))
            else (if is_aram then ''--ARAM--'' else ''--------'', checked))
      else (''<unknwn>'', {}))"

definition IsBreakpoint :: "Machine \<Rightarrow> u32 \<Rightarrow> bool" where
  "IsBreakpoint m address = BreakPoints_IsAddressBreakPoint (breakpoints m) address"

definition ToggleBreakpoint :: "Machine \<Rightarrow> u32 \<Rightarrow> Machine" where
  "ToggleBreakpoint m address =
     (if BreakPoints_IsAddressBreakPoint (breakpoints m) address
      then m\<lparr>breakpoints := BreakPoints_Remove (breakpoints m) address\<rparr>
      else m\<lparr>breakpoints := BreakPoints_Add (breakpoints m) address\<rparr>)"

definition IsMemCheck :: "Machine \<Rightarrow> u32 \<Rightarrow> nat \<Rightarrow> bool" where
  "IsMemCheck m address sz = (MemChecks_GetMemCheck (memchecks m) address sz \<noteq> None)"

text \<open>
  \<^verbatim>\<open>IsMemCheck(address)\<close> is called without a size: the default of the header, which is
  not among the sources; the spec gives it as 1.
\<close>

definition ToggleMemCheck :: "Machine \<Rightarrow> u32 \<Rightarrow> bool \<Rightarrow> bool \<Rightarrow> bool \<Rightarrow> Machine" where
  "ToggleMemCheck m address read write log =
     (if \<not> IsMemCheck m address 1 then
        m\<lparr>memchecks := MemChecks_Add (memchecks m)
             \<lparr>start_address = address, end_address = address,
              is_break_on_read = read, is_break_on_write = write,
              log_on_hit = log, break_on_hit = True\<rparr>\<rparr>
      else m\<lparr>memchecks := MemChecks_Remove (memchecks m) address\<rparr>)"

definition colors :: "int list" where
  "colors = [0xd0FFFF, 0xFFd0d0, 0xd8d8FF, 0xFFd0FF, 0xd0FFd0, 0xFFFFd0]"

definition GetColor :: "Machine \<Rightarrow> u32 \<Rightarrow> int \<times> access set" where
  "GetColor m address =
     (if \<not> IsAlive m then (0xFFFFFF, {})
      else if \<not> HostIsRAMAddress m address then (0xeeeeee, {RAM_check address})
      else
        (case GetSymbolFromAddr m address of
           None \<Rightarrow> (0xFFFFFF, {RAM_check address})
         | Some symbol \<Rightarrow>
             if symbol_type symbol \<noteq> Function then (0xEEEEFF, {RAM_check address})
             else (colors ! (index symbol mod 6), {RAM_check address})))"

subsection \<open>Concrete machines\<close>

text \<open>
  A machine with RAM behind the addresses \<open>0x80001000\<close> to \<open>0x80001FFF\<close>, an
  HLE trampoline (primary opcode 1) as its first instruction, an audio RAM holding the
  bytes \<open>0x7E, 0x7F, 0x80, 0x81\<close> from address 0 on, a disassembler that prints the
  instruction word in hexadecimal, two function symbols and a data symbol, one
  breakpoint and one ranged memcheck. It is paused; the two others are the same machine
  running, and not started.
\<close>

definition paused_machine :: Machine where
  "paused_machine =
     \<lparr>IsRunningAndStarted = True,
      GetState = Paused,
      HostIsRAMAddress = (\<lambda>a. 0x80001000 \<le> a \<and> a \<le> 0x80001FFF),
      HostRead_U32 = (\<lambda>a. if a = 0x80001000 then 0x0400ABCD else 0x7C0802A6),
      HostRead_Instruction = (\<lambda>a. if a = 0x80001000 then 0x04000010 else 0x7C0802A6),
      ReadARAM = (\<lambda>a. ucast a + 0x7E),
      GekkoDisassemble = (\<lambda>op a. hex_upper (unat op)),
      GetSymbolFromAddr =
        (\<lambda>a. if a = 0x80001000 then Some \<lparr>symbol_type = Function, index = 3\<rparr>
             else if a = 0x80001004 then Some \<lparr>symbol_type = Function, index = 9\<rparr>
             else if a = 0x80001008 then Some \<lparr>symbol_type = Data, index = 4\<rparr>
             else None),
      breakpoints = {0x80001000},
      memchecks =
        [\<lparr>start_address = 0x1000, end_address = 0x1003,
          is_break_on_read = True, is_break_on_write = False,
          log_on_hit = True, break_on_hit = True\<rparr>]\<rparr>"

definition running_machine :: Machine where
  "running_machine = paused_machine\<lparr>GetState := Running\<rparr>"

definition stopped_machine :: Machine where
  "stopped_machine = paused_machine\<lparr>IsRunningAndStarted := False, GetState := Uninitialized\<rparr>"

text \<open>The paused machine with one point memcheck, as a toggle leaves it.\<close>

definition point_check_machine :: Machine where
  "point_check_machine =
     paused_machine\<lparr>memchecks :=
       [\<lparr>start_address = 0x1000, end_address = 0x1000,
         is_break_on_read = True, is_break_on_write = True,
         log_on_hit = True, break_on_hit = True\<rparr>]\<rparr>"

text \<open>
  The paused machine with a disassembler whose own text ends with \<open> (hle)\<close>, whatever
  the instruction word is.
\<close>

definition hle_text_machine :: Machine where
  "hle_text_machine =
     paused_machine\<lparr>GekkoDisassemble := (\<lambda>op a. ''bl 0x80003100 (hle)'')\<rparr>"

section \<open>Breakpoints\<close>

lemma ToggleBreakpoint_breakpoints:
  "breakpoints (ToggleBreakpoint m a) =
     (if a \<in> breakpoints m then breakpoints m - {a} else insert a (breakpoints m))"
  by (simp add: ToggleBreakpoint_def BreakPoints_IsAddressBreakPoint_def
      BreakPoints_Add_def BreakPoints_Remove_def)

text \<open>
  C1. For every address \<open>a\<close> and every state of the breakpoint set, one
  \<open>ToggleBreakpoint a\<close> removes \<open>a\<close> if it is present and adds it if it is absent, and
  leaves every other address as it was; two calls in a row restore the machine, and so
  the membership of every address.
\<close>

theorem ToggleBreakpoint_involution:
  "(IsBreakpoint m a \<longrightarrow> \<not> IsBreakpoint (ToggleBreakpoint m a) a) \<and>
   (\<not> IsBreakpoint m a \<longrightarrow> IsBreakpoint (ToggleBreakpoint m a) a) \<and>
   (\<forall>b. b \<noteq> a \<longrightarrow> IsBreakpoint (ToggleBreakpoint m a) b = IsBreakpoint m b) \<and>
   ToggleBreakpoint (ToggleBreakpoint m a) a = m \<and>
   (\<forall>b. IsBreakpoint (ToggleBreakpoint (ToggleBreakpoint m a) a) b = IsBreakpoint m b)"
proof -
  have twice: "ToggleBreakpoint (ToggleBreakpoint m a) a = m"
  proof (cases "a \<in> breakpoints m")
    case True
    then have "insert a (breakpoints m - {a}) = breakpoints m" by blast
    with True show ?thesis
      by (simp add: ToggleBreakpoint_def BreakPoints_IsAddressBreakPoint_def
          BreakPoints_Add_def BreakPoints_Remove_def)
  next
    case False
    then have "insert a (breakpoints m) - {a} = breakpoints m" by blast
    with False show ?thesis
      by (simp add: ToggleBreakpoint_def BreakPoints_IsAddressBreakPoint_def
          BreakPoints_Add_def BreakPoints_Remove_def)
  qed
  have once: "IsBreakpoint (ToggleBreakpoint m a) b = (if b = a then \<not> IsBreakpoint m a else IsBreakpoint m b)" for b
    by (simp add: IsBreakpoint_def BreakPoints_IsAddressBreakPoint_def ToggleBreakpoint_breakpoints)
  show ?thesis
    using twice once by simp
qed

theorem ToggleBreakpoint_involution_witness:
  "IsBreakpoint paused_machine 0x80001000 \<and>
   \<not> IsBreakpoint (ToggleBreakpoint paused_machine 0x80001000) 0x80001000 \<and>
   \<not> IsBreakpoint paused_machine 0x80001004 \<and>
   IsBreakpoint (ToggleBreakpoint paused_machine 0x80001004) 0x80001004 \<and>
   IsBreakpoint (ToggleBreakpoint paused_machine 0x80001004) 0x80001000 \<and>
   ToggleBreakpoint (ToggleBreakpoint paused_machine 0x80001000) 0x80001000 = paused_machine \<and>
   ToggleBreakpoint (ToggleBreakpoint paused_machine 0x80001004) 0x80001004 = paused_machine"
proof -
  have present: "IsBreakpoint paused_machine 0x80001000"
    by (simp add: IsBreakpoint_def BreakPoints_IsAddressBreakPoint_def paused_machine_def)
  have absent: "\<not> IsBreakpoint paused_machine 0x80001004"
    by (simp add: IsBreakpoint_def BreakPoints_IsAddressBreakPoint_def paused_machine_def)
  show ?thesis
    using present absent
      ToggleBreakpoint_involution [of paused_machine "0x80001000"]
      ToggleBreakpoint_involution [of paused_machine "0x80001004"]
    by simp
qed

section \<open>Memchecks\<close>

lemma overlaps_one: "overlaps mc a (Suc 0) = contains_address mc a"
  by (auto simp: overlaps_def contains_address_def word_le_nat_alt)

text \<open>The arithmetic of \<open>overlaps\<close> is the overlap of the two intervals.\<close>

lemma overlaps_interval:
  "overlaps mc a n \<longleftrightarrow>
     {unat (start_address mc) .. unat (end_address mc)} \<inter> {unat a ..< unat a + n} \<noteq> {}"
proof
  assume "overlaps mc a n"
  then have "max (unat (start_address mc)) (unat a) \<in>
      {unat (start_address mc) .. unat (end_address mc)} \<inter> {unat a ..< unat a + n}"
    by (simp add: overlaps_def)
  then show "{unat (start_address mc) .. unat (end_address mc)} \<inter> {unat a ..< unat a + n} \<noteq> {}"
    by blast
next
  assume "{unat (start_address mc) .. unat (end_address mc)} \<inter> {unat a ..< unat a + n} \<noteq> {}"
  then obtain x where "unat (start_address mc) \<le> x" "x \<le> unat (end_address mc)"
      "unat a \<le> x" "x < unat a + n"
    by auto
  then show "overlaps mc a n"
    by (simp add: overlaps_def)
qed

lemma IsMemCheck_covers:
  "IsMemCheck m a (Suc 0) \<longleftrightarrow> (\<exists>mc \<in> set (memchecks m). contains_address mc a)"
  by (auto simp: IsMemCheck_def MemChecks_GetMemCheck_def find_None_iff overlaps_one)

lemma GetMemCheck_one:
  "MemChecks_GetMemCheck mcs a (Suc 0) = find (\<lambda>mc. contains_address mc a) mcs"
  by (simp add: MemChecks_GetMemCheck_def overlaps_one)

lemma Remove_appended:
  "\<forall>mc \<in> set mcs. \<not> contains_address mc a \<Longrightarrow> contains_address x a \<Longrightarrow>
   MemChecks_Remove (mcs @ [x]) a = mcs"
  by (induction mcs) auto

lemma Remove_first_hit:
  "find (\<lambda>mc. contains_address mc a) mcs = Some x \<Longrightarrow> MemChecks_Remove mcs a = remove1 x mcs"
proof (induction mcs)
  case Nil
  then show ?case by simp
next
  case (Cons h t)
  show ?case
  proof (cases "contains_address h a")
    case True
    with Cons.prems show ?thesis by simp
  next
    case False
    with Cons.prems have tl: "find (\<lambda>mc. contains_address mc a) t = Some x" by simp
    then have "contains_address x a" by (auto simp: find_Some_iff)
    with False have "x \<noteq> h" by auto
    with False Cons.IH [OF tl] show ?thesis by simp
  qed
qed

lemma point_contains:
  "contains_address \<lparr>start_address = a, end_address = a,
      is_break_on_read = r, is_break_on_write = w,
      log_on_hit = l, break_on_hit = True\<rparr> a"
  by (simp add: contains_address_def)

lemma Toggle_on:
  assumes "\<forall>mc \<in> set (memchecks m). \<not> contains_address mc a"
  shows "ToggleMemCheck m a r w l =
    m\<lparr>memchecks := memchecks m @
       [\<lparr>start_address = a, end_address = a,
         is_break_on_read = r, is_break_on_write = w,
         log_on_hit = l, break_on_hit = True\<rparr>]\<rparr>"
  using assms by (simp add: ToggleMemCheck_def IsMemCheck_covers MemChecks_Add_def)

lemma Toggle_off:
  assumes "\<exists>mc \<in> set (memchecks m). contains_address mc a"
  shows "ToggleMemCheck m a r w l = m\<lparr>memchecks := MemChecks_Remove (memchecks m) a\<rparr>"
  using assms by (simp add: ToggleMemCheck_def IsMemCheck_covers)

lemma Toggle_on_off:
  assumes "\<forall>mc \<in> set (memchecks m). \<not> contains_address mc a"
  shows "ToggleMemCheck (ToggleMemCheck m a r w l) a r' w' l' = m"
proof -
  let ?x = "\<lparr>start_address = a, end_address = a,
              is_break_on_read = r, is_break_on_write = w,
              log_on_hit = l, break_on_hit = True\<rparr>"
  let ?m1 = "m\<lparr>memchecks := memchecks m @ [?x]\<rparr>"
  have 1: "ToggleMemCheck m a r w l = ?m1" by (rule Toggle_on [OF assms])
  have "\<exists>mc \<in> set (memchecks ?m1). contains_address mc a"
    by (simp add: point_contains)
  then have "ToggleMemCheck ?m1 a r' w' l' = ?m1\<lparr>memchecks := MemChecks_Remove (memchecks ?m1) a\<rparr>"
    by (rule Toggle_off)
  also have "\<dots> = m"
    using Remove_appended [OF assms point_contains, of r w l] by simp
  finally show ?thesis using 1 by simp
qed

lemmas memcheck_defs =
  ToggleMemCheck_def IsMemCheck_def MemChecks_GetMemCheck_def MemChecks_Add_def
  overlaps_def contains_address_def

text \<open>
  C2, as the code has it. If no memcheck covers \<open>a\<close> in the starting state, then
  \<open>ToggleMemCheck a r w l\<close> followed by \<open>ToggleMemCheck a r' w' l'\<close> restores the starting
  state, whatever the two flag triples are. If a memcheck covers \<open>a\<close>, one
  \<open>ToggleMemCheck\<close> removes the first such record (the one \<open>GetMemCheck\<close> returns) and
  nothing else, and the flags passed have no effect on the result.
\<close>

theorem ToggleMemCheck_twice:
  "(\<not> IsMemCheck m a 1 \<longrightarrow> ToggleMemCheck (ToggleMemCheck m a r w l) a r' w' l' = m) \<and>
   (IsMemCheck m a 1 \<longrightarrow>
      (\<exists>mc. MemChecks_GetMemCheck (memchecks m) a 1 = Some mc \<and> contains_address mc a \<and>
            ToggleMemCheck m a r w l = m\<lparr>memchecks := remove1 mc (memchecks m)\<rparr>) \<and>
      ToggleMemCheck m a r w l = ToggleMemCheck m a r' w' l')"
proof (cases "IsMemCheck m a (Suc 0)")
  case False
  then have "\<forall>mc \<in> set (memchecks m). \<not> contains_address mc a"
    by (simp add: IsMemCheck_covers)
  then have "ToggleMemCheck (ToggleMemCheck m a r w l) a r' w' l' = m"
    by (rule Toggle_on_off)
  with False show ?thesis by simp
next
  case True
  then have cov: "\<exists>mc \<in> set (memchecks m). contains_address mc a"
    by (simp add: IsMemCheck_covers)
  then obtain mc where mc: "find (\<lambda>mc. contains_address mc a) (memchecks m) = Some mc"
    by (cases "find (\<lambda>mc. contains_address mc a) (memchecks m)") (auto simp: find_None_iff)
  then have hit: "contains_address mc a" by (auto simp: find_Some_iff)
  have off: "ToggleMemCheck m a x y z = m\<lparr>memchecks := remove1 mc (memchecks m)\<rparr>" for x y z
    using Toggle_off [OF cov] Remove_first_hit [OF mc] by simp
  from mc have "MemChecks_GetMemCheck (memchecks m) a (Suc 0) = Some mc"
    by (simp add: GetMemCheck_one)
  with True hit off show ?thesis by simp
qed

theorem ToggleMemCheck_twice_witness:
  "\<not> IsMemCheck paused_machine 0x2000 1 \<and>
   ToggleMemCheck (ToggleMemCheck paused_machine 0x2000 True False True) 0x2000 False True False =
     paused_machine \<and>
   IsMemCheck paused_machine 0x1001 1 \<and>
   memchecks (ToggleMemCheck paused_machine 0x1001 True True True) = [] \<and>
   ToggleMemCheck paused_machine 0x1001 True True True =
     ToggleMemCheck paused_machine 0x1001 False False False"
proof -
  have absent: "\<not> IsMemCheck paused_machine 0x2000 1"
    by (simp add: memcheck_defs paused_machine_def)
  have present: "IsMemCheck paused_machine 0x1001 1"
    by (simp add: memcheck_defs paused_machine_def)
  have first: "MemChecks_GetMemCheck (memchecks paused_machine) 0x1001 1 =
      Some \<lparr>start_address = 0x1000, end_address = 0x1003,
            is_break_on_read = True, is_break_on_write = False,
            log_on_hit = True, break_on_hit = True\<rparr>"
    by (simp add: memcheck_defs paused_machine_def)
  from absent ToggleMemCheck_twice [of paused_machine "0x2000" True False True False True False]
  have on_off: "ToggleMemCheck (ToggleMemCheck paused_machine 0x2000 True False True) 0x2000
      False True False = paused_machine"
    by blast
  from present ToggleMemCheck_twice [of paused_machine "0x1001" True True True False False False]
  have off: "(\<exists>mc. MemChecks_GetMemCheck (memchecks paused_machine) 0x1001 1 = Some mc \<and>
        contains_address mc 0x1001 \<and>
        ToggleMemCheck paused_machine 0x1001 True True True =
          paused_machine\<lparr>memchecks := remove1 mc (memchecks paused_machine)\<rparr>) \<and>
      ToggleMemCheck paused_machine 0x1001 True True True =
        ToggleMemCheck paused_machine 0x1001 False False False"
    by blast
  then have "memchecks (ToggleMemCheck paused_machine 0x1001 True True True) = []"
    using first by (auto simp: paused_machine_def)
  with absent present on_off off show ?thesis by simp
qed

text \<open>
  C2 as stated fails when a memcheck covers \<open>a\<close> in the starting state: the first toggle
  removes it, and the second adds a point check at \<open>a\<close> with the second call's flags,
  which is not the record that was removed. The first machine holds the range
  \<open>0x1000..0x1003\<close>; the second holds a point check at \<open>0x1000\<close> with all flags set.
\<close>

theorem ToggleMemCheck_twice_counterexample:
  "IsMemCheck paused_machine 0x1000 1 \<and>
   ToggleMemCheck (ToggleMemCheck paused_machine 0x1000 True False True) 0x1000 True False True
     \<noteq> paused_machine \<and>
   IsMemCheck point_check_machine 0x1000 1 \<and>
   memchecks (ToggleMemCheck (ToggleMemCheck point_check_machine 0x1000 True True True) 0x1000
       False False False) =
     [\<lparr>start_address = 0x1000, end_address = 0x1000,
       is_break_on_read = False, is_break_on_write = False,
       log_on_hit = False, break_on_hit = True\<rparr>] \<and>
   ToggleMemCheck (ToggleMemCheck point_check_machine 0x1000 True True True) 0x1000
       False False False \<noteq> point_check_machine"
proof -
  have 1: "IsMemCheck paused_machine 0x1000 1"
    by (simp add: memcheck_defs paused_machine_def)
  have 2: "memchecks (ToggleMemCheck (ToggleMemCheck paused_machine 0x1000 True False True)
      0x1000 True False True) \<noteq> memchecks paused_machine"
    by (simp add: memcheck_defs paused_machine_def)
  have 3: "IsMemCheck point_check_machine 0x1000 1"
    by (simp add: memcheck_defs point_check_machine_def)
  have 4: "memchecks (ToggleMemCheck (ToggleMemCheck point_check_machine 0x1000 True True True)
      0x1000 False False False) =
     [\<lparr>start_address = 0x1000, end_address = 0x1000,
       is_break_on_read = False, is_break_on_write = False,
       log_on_hit = False, break_on_hit = True\<rparr>]"
    by (simp add: memcheck_defs point_check_machine_def)
  have 5: "memchecks point_check_machine \<noteq>
     [\<lparr>start_address = 0x1000, end_address = 0x1000,
       is_break_on_read = False, is_break_on_write = False,
       log_on_hit = False, break_on_hit = True\<rparr>]"
    by (simp add: point_check_machine_def)
  from 2 have 6: "ToggleMemCheck (ToggleMemCheck paused_machine 0x1000 True False True) 0x1000
      True False True \<noteq> paused_machine"
    by metis
  from 4 5 have 7: "ToggleMemCheck (ToggleMemCheck point_check_machine 0x1000 True True True)
      0x1000 False False False \<noteq> point_check_machine"
    by metis
  from 1 3 4 6 7 show ?thesis by simp
qed

text \<open>
  C3. If no existing memcheck covers \<open>a\<close>, then \<open>ToggleMemCheck a read write log\<close> adds
  exactly one record, after the existing ones, with \<open>start_address = end_address = a\<close>,
  the three flags as passed and \<open>break_on_hit\<close> set; nothing else of the machine changes.
\<close>

theorem ToggleMemCheck_adds_point_check:
  assumes "\<forall>mc \<in> set (memchecks m). \<not> contains_address mc a"
  shows "ToggleMemCheck m a read write log =
           m\<lparr>memchecks := memchecks m @
              [\<lparr>start_address = a, end_address = a,
                is_break_on_read = read, is_break_on_write = write,
                log_on_hit = log, break_on_hit = True\<rparr>]\<rparr> \<and>
         length (memchecks (ToggleMemCheck m a read write log)) = Suc (length (memchecks m)) \<and>
         \<not> IsMemCheck m a 1 \<and> IsMemCheck (ToggleMemCheck m a read write log) a 1"
proof -
  have eq: "ToggleMemCheck m a read write log =
           m\<lparr>memchecks := memchecks m @
              [\<lparr>start_address = a, end_address = a,
                is_break_on_read = read, is_break_on_write = write,
                log_on_hit = log, break_on_hit = True\<rparr>]\<rparr>"
    by (rule Toggle_on [OF assms])
  have before: "\<not> IsMemCheck m a (Suc 0)"
    using assms by (simp add: IsMemCheck_covers)
  have after: "IsMemCheck (ToggleMemCheck m a read write log) a (Suc 0)"
    by (simp add: eq IsMemCheck_covers point_contains)
  from eq before after show ?thesis by simp
qed

theorem ToggleMemCheck_adds_point_check_witness:
  "memchecks (ToggleMemCheck paused_machine 0x2000 True False True) =
     [\<lparr>start_address = 0x1000, end_address = 0x1003,
       is_break_on_read = True, is_break_on_write = False,
       log_on_hit = True, break_on_hit = True\<rparr>,
      \<lparr>start_address = 0x2000, end_address = 0x2000,
       is_break_on_read = True, is_break_on_write = False,
       log_on_hit = True, break_on_hit = True\<rparr>] \<and>
   breakpoints (ToggleMemCheck paused_machine 0x2000 True False True) = {0x80001000} \<and>
   IsMemCheck (ToggleMemCheck paused_machine 0x2000 True False True) 0x2000 1"
proof -
  have free: "\<forall>mc \<in> set (memchecks paused_machine). \<not> contains_address mc 0x2000"
    by (simp add: paused_machine_def contains_address_def)
  from ToggleMemCheck_adds_point_check [OF free, of True False True]
  have eq: "ToggleMemCheck paused_machine 0x2000 True False True =
      paused_machine\<lparr>memchecks := memchecks paused_machine @
        [\<lparr>start_address = 0x2000, end_address = 0x2000,
          is_break_on_read = True, is_break_on_write = False,
          log_on_hit = True, break_on_hit = True\<rparr>]\<rparr>"
    by blast
  show ?thesis
    unfolding eq by (simp add: paused_machine_def memcheck_defs)
qed

lemmas machine_defs = paused_machine_def running_machine_def stopped_machine_def IsAlive_def

section \<open>Disassembly\<close>

lemma OPCD_div: "unat (OPCD op) = unat op div 2 ^ 26"
  by (simp add: OPCD_def drop_bit_eq_div unat_div)

lemma ends_with_append: "ends_with (s @ t) t"
  by (simp add: ends_with_def)

lemma ends_with_iff: "ends_with s t \<longleftrightarrow> (\<exists>p. s = p @ t)"
proof
  assume "ends_with s t"
  then have "s = take (length s - length t) s @ t"
    by (metis append_take_drop_id ends_with_def)
  then show "\<exists>p. s = p @ t" ..
next
  assume "\<exists>p. s = p @ t"
  then show "ends_with s t" by (auto simp: ends_with_def)
qed

text \<open>
  C4. For every address, \<open>Disassemble\<close> returns the empty string when the machine is not
  alive; when it is alive and paused and the address is not a valid RAM address, it
  returns \<open>(No RAM here)\<close>, having made the validity query only; when it is alive and not
  paused, it returns \<open><unknown>\<close> and makes no access to the emulated memory at all.
\<close>

theorem Disassemble_sentinels:
  "(\<not> IsAlive m \<longrightarrow> Disassemble m a = ('''', {})) \<and>
   (IsAlive m \<and> GetState m = Paused \<and> \<not> HostIsRAMAddress m a \<longrightarrow>
      Disassemble m a = (''(No RAM here)'', {RAM_check a})) \<and>
   (IsAlive m \<and> GetState m \<noteq> Paused \<longrightarrow> Disassemble m a = (''<unknown>'', {}))"
  by (simp add: Disassemble_def)

theorem Disassemble_sentinels_witness:
  "Disassemble stopped_machine 0x80001000 = ('''', {}) \<and>
   Disassemble paused_machine 0 = (''(No RAM here)'', {RAM_check 0}) \<and>
   Disassemble running_machine 0x80001000 = (''<unknown>'', {})"
proof -
  have dead: "\<not> IsAlive stopped_machine"
    by (simp add: machine_defs)
  have paused: "IsAlive paused_machine \<and> GetState paused_machine = Paused \<and>
      \<not> HostIsRAMAddress paused_machine 0"
    by (simp add: machine_defs)
  have running: "IsAlive running_machine \<and> GetState running_machine \<noteq> Paused"
    by (simp add: machine_defs)
  from dead paused running
    Disassemble_sentinels [of stopped_machine "0x80001000"]
    Disassemble_sentinels [of paused_machine 0]
    Disassemble_sentinels [of running_machine "0x80001000"]
  show ?thesis by blast
qed

text \<open>
  C5, as the code has it. On a machine that is alive and paused, at a valid RAM address:
  when the primary opcode of the fetched instruction word is 1, the result is the
  disassembler's text followed by \<open> (hle)\<close>, so it ends with that suffix; otherwise the
  result is exactly the disassembler's text, with nothing appended. The result ends with
  the suffix if and only if the primary opcode is 1 provided the disassembler's own text
  does not already end with \<open> (hle)\<close>.
\<close>

theorem Disassemble_hle_suffix:
  assumes "IsAlive m" and "GetState m = Paused" and "HostIsRAMAddress m a"
  shows "(OPCD (HostRead_Instruction m a) = 1 \<longrightarrow>
            fst (Disassemble m a) = GekkoDisassemble m (HostRead_Instruction m a) a @ '' (hle)'' \<and>
            ends_with (fst (Disassemble m a)) '' (hle)'') \<and>
         (OPCD (HostRead_Instruction m a) \<noteq> 1 \<longrightarrow>
            fst (Disassemble m a) = GekkoDisassemble m (HostRead_Instruction m a) a) \<and>
         (\<not> ends_with (GekkoDisassemble m (HostRead_Instruction m a) a) '' (hle)'' \<longrightarrow>
            (ends_with (fst (Disassemble m a)) '' (hle)'' \<longleftrightarrow>
             OPCD (HostRead_Instruction m a) = 1))"
proof -
  let ?op = "HostRead_Instruction m a"
  let ?text = "GekkoDisassemble m ?op a"
  have res: "fst (Disassemble m a) = (if OPCD ?op = 1 then ?text @ '' (hle)'' else ?text)"
    using assms by (simp add: Disassemble_def Let_def)
  have "ends_with (?text @ '' (hle)'') '' (hle)''"
    by (rule ends_with_append)
  with res show ?thesis by auto
qed

theorem Disassemble_hle_suffix_witness:
  "OPCD (HostRead_Instruction paused_machine 0x80001000) = 1 \<and>
   fst (Disassemble paused_machine 0x80001000) = ''4000010 (hle)'' \<and>
   OPCD (HostRead_Instruction paused_machine 0x80001004) = 31 \<and>
   fst (Disassemble paused_machine 0x80001004) = ''7C0802A6''"
proof -
  have hyps: "IsAlive paused_machine" "GetState paused_machine = Paused"
      "HostIsRAMAddress paused_machine 0x80001000" "HostIsRAMAddress paused_machine 0x80001004"
    by (simp_all add: machine_defs)
  have hle: "OPCD (HostRead_Instruction paused_machine 0x80001000) = 1"
    by (simp add: paused_machine_def OPCD_def drop_bit_eq_div)
  have other: "OPCD (HostRead_Instruction paused_machine 0x80001004) = 31"
    by (simp add: paused_machine_def OPCD_def drop_bit_eq_div)
  have text1: "GekkoDisassemble paused_machine (HostRead_Instruction paused_machine 0x80001000)
      0x80001000 = ''4000010''"
    by (simp add: paused_machine_def hex_upper.simps)
  have text2: "GekkoDisassemble paused_machine (HostRead_Instruction paused_machine 0x80001004)
      0x80001004 = ''7C0802A6''"
    by (simp add: paused_machine_def hex_upper.simps)
  from hle text1 Disassemble_hle_suffix [OF hyps(1) hyps(2) hyps(3)]
  have 1: "fst (Disassemble paused_machine 0x80001000) = ''4000010 (hle)''"
    by simp
  from other text2 Disassemble_hle_suffix [OF hyps(1) hyps(2) hyps(4)]
  have 2: "fst (Disassemble paused_machine 0x80001004) = ''7C0802A6''"
    by simp
  from hle other 1 2 show ?thesis by simp
qed

text \<open>
  C5 as stated fails when the disassembler's own text ends with \<open> (hle)\<close>: the
  instruction at \<open>0x80001004\<close> has primary opcode 31, nothing is appended, and the result
  ends with the suffix all the same.
\<close>

theorem Disassemble_hle_suffix_counterexample:
  "IsAlive hle_text_machine \<and> GetState hle_text_machine = Paused \<and>
   HostIsRAMAddress hle_text_machine 0x80001004 \<and>
   OPCD (HostRead_Instruction hle_text_machine 0x80001004) = 31 \<and>
   OPCD (HostRead_Instruction hle_text_machine 0x80001004) \<noteq> 1 \<and>
   fst (Disassemble hle_text_machine 0x80001004) = ''bl 0x80003100 (hle)'' \<and>
   ends_with (fst (Disassemble hle_text_machine 0x80001004)) '' (hle)''"
proof -
  have state: "IsAlive hle_text_machine" "GetState hle_text_machine = Paused"
      "HostIsRAMAddress hle_text_machine 0x80001004"
    by (simp_all add: hle_text_machine_def machine_defs)
  have opcode: "OPCD (HostRead_Instruction hle_text_machine 0x80001004) = 31"
    by (simp add: hle_text_machine_def paused_machine_def OPCD_def drop_bit_eq_div)
  then have other: "OPCD (HostRead_Instruction hle_text_machine 0x80001004) \<noteq> 1"
    by simp
  have printed: "GekkoDisassemble hle_text_machine
      (HostRead_Instruction hle_text_machine 0x80001004) 0x80001004 = ''bl 0x80003100 (hle)''"
    by (simp add: hle_text_machine_def)
  from state other printed
  have result: "fst (Disassemble hle_text_machine 0x80001004) = ''bl 0x80003100 (hle)''"
    by (simp add: Disassemble_def Let_def)
  have ends: "ends_with ''bl 0x80003100 (hle)'' '' (hle)''"
    by (simp add: ends_with_def)
  from state opcode other result ends show ?thesis by simp
qed

section \<open>Reading and showing memory\<close>

lemma or_push_bit_add:
  fixes x y :: nat
  assumes "y < 2 ^ n"
  shows "push_bit n x OR y = push_bit n x + y"
proof -
  from assms have y: "take_bit n y = y" by (simp add: take_bit_nat_eq_self_iff)
  have "push_bit n x AND take_bit n y = 0"
    by (rule bit_eqI) (auto simp: bit_simps)
  with y have "push_bit n x AND y = 0" by simp
  then show ?thesis by (rule disjunctive_add_eq_or [symmetric])
qed

lemma unat_byte_lt: "unat (b :: u8) < 256"
  using unsigned_less [of b, where 'a = nat] by simp

lemma pack_big_endian:
  fixes b0 b1 b2 b3 :: u8
  shows "unat (push_bit 24 (ucast b0 :: u32) OR push_bit 16 (ucast b1) OR
               push_bit 8 (ucast b2) OR ucast b3) =
         unat b0 * 2 ^ 24 + unat b1 * 2 ^ 16 + unat b2 * 2 ^ 8 + unat b3"
proof -
  let ?k0 = "unat b0" and ?k1 = "unat b1" and ?k2 = "unat b2" and ?k3 = "unat b3"
  have lt: "?k0 < 256" "?k1 < 256" "?k2 < 256" "?k3 < 256"
    by (rule unat_byte_lt)+
  have u: "unat (ucast b :: u32) = unat b" for b :: u8
    using unat_byte_lt [of b] by (simp add: unsigned_ucast_eq take_bit_nat_eq_self_iff)
  have p: "unat (push_bit n (ucast b :: u32)) = push_bit n (unat b)" if "n \<le> 24" for b :: u8 and n
  proof -
    have "unat b < 2 ^ 8" using unat_byte_lt [of b] by simp
    then have "push_bit n (unat b) < 2 ^ (n + 8)"
      by (simp add: push_bit_eq_mult power_add)
    also have "(2::nat) ^ (n + 8) \<le> 2 ^ 32"
      using that by (intro power_increasing) auto
    finally have "take_bit 32 (push_bit n (unat b)) = push_bit n (unat b)"
      by (simp add: take_bit_nat_eq_self_iff)
    then show ?thesis by (simp add: unsigned_push_bit_eq u)
  qed
  have "unat (push_bit 24 (ucast b0 :: u32) OR push_bit 16 (ucast b1) OR
               push_bit 8 (ucast b2) OR ucast b3) =
        push_bit 24 ?k0 OR push_bit 16 ?k1 OR push_bit 8 ?k2 OR ?k3"
    by (simp add: unsigned_or_eq p u)
  also have "push_bit 8 ?k2 OR ?k3 = push_bit 8 ?k2 + ?k3"
    using lt by (intro or_push_bit_add) simp
  also have "push_bit 16 ?k1 OR (push_bit 8 ?k2 + ?k3) = push_bit 16 ?k1 + (push_bit 8 ?k2 + ?k3)"
    using lt by (intro or_push_bit_add) (simp add: push_bit_eq_mult)
  also have "push_bit 24 ?k0 OR (push_bit 16 ?k1 + (push_bit 8 ?k2 + ?k3)) =
      push_bit 24 ?k0 + (push_bit 16 ?k1 + (push_bit 8 ?k2 + ?k3))"
    using lt by (intro or_push_bit_add) (simp add: push_bit_eq_mult)
  finally show ?thesis by (simp add: push_bit_eq_mult)
qed

text \<open>
  C7. In space 0, \<open>ReadExtraMemory\<close> is \<open>ReadMemory\<close> (same value, same access). In
  space 1 it reads the four audio-RAM bytes at \<open>a\<close>, \<open>a + 1\<close>, \<open>a + 2\<close>, \<open>a + 3\<close> and its
  value is \<open>b0 * 2^24 + b1 * 2^16 + b2 * 2^8 + b3\<close>: big-endian, the byte at \<open>a\<close> the
  most significant. In every other space it returns 0 and reads nothing.
\<close>

theorem ReadExtraMemory_spaces:
  "ReadExtraMemory m 0 a = ReadMemory m a \<and>
   unat (fst (ReadExtraMemory m 1 a)) =
     unat (ReadARAM m a) * 2 ^ 24 + unat (ReadARAM m (a + 1)) * 2 ^ 16 +
     unat (ReadARAM m (a + 2)) * 2 ^ 8 + unat (ReadARAM m (a + 3)) \<and>
   snd (ReadExtraMemory m 1 a) =
     {ARAM_read a, ARAM_read (a + 1), ARAM_read (a + 2), ARAM_read (a + 3)} \<and>
   (memory \<noteq> 0 \<and> memory \<noteq> 1 \<longrightarrow> ReadExtraMemory m memory a = (0, {}))"
proof -
  have zero: "ReadExtraMemory m 0 a = ReadMemory m a"
    by (simp add: ReadExtraMemory_def ReadMemory_def)
  have one: "fst (ReadExtraMemory m 1 a) =
      push_bit 24 (ucast (ReadARAM m a)) OR push_bit 16 (ucast (ReadARAM m (a + 1))) OR
      push_bit 8 (ucast (ReadARAM m (a + 2))) OR ucast (ReadARAM m (a + 3))"
    by (simp add: ReadExtraMemory_def)
  have touched: "snd (ReadExtraMemory m 1 a) =
     {ARAM_read a, ARAM_read (a + 1), ARAM_read (a + 2), ARAM_read (a + 3)}"
    by (simp add: ReadExtraMemory_def)
  have other: "memory \<noteq> 0 \<and> memory \<noteq> 1 \<longrightarrow> ReadExtraMemory m memory a = (0, {})"
    by (simp add: ReadExtraMemory_def)
  from zero touched other show ?thesis
    unfolding one pack_big_endian by simp
qed

theorem ReadExtraMemory_spaces_witness:
  "ReadExtraMemory paused_machine 0 0x80001000 = (0x0400ABCD, {U32_read 0x80001000}) \<and>
   fst (ReadExtraMemory paused_machine 1 0) = 0x7E7F8081 \<and>
   fst (ReadExtraMemory paused_machine 1 0xFFFFFFFF) = 0x7D7E7F80 \<and>
   ReadExtraMemory paused_machine 2 0 = (0, {}) \<and>
   ReadExtraMemory paused_machine (- 1) 0x80001000 = (0, {})"
proof -
  have rm: "ReadMemory paused_machine 0x80001000 = (0x0400ABCD, {U32_read 0x80001000})"
    by (simp add: ReadMemory_def paused_machine_def)
  have bytes: "unat (ReadARAM paused_machine 0) = 0x7E" "unat (ReadARAM paused_machine (0 + 1)) = 0x7F"
      "unat (ReadARAM paused_machine (0 + 2)) = 0x80" "unat (ReadARAM paused_machine (0 + 3)) = 0x81"
    by (simp_all add: paused_machine_def)
  have wrapped: "unat (ReadARAM paused_machine 0xFFFFFFFF) = 0x7D"
      "unat (ReadARAM paused_machine (0xFFFFFFFF + 1)) = 0x7E"
      "unat (ReadARAM paused_machine (0xFFFFFFFF + 2)) = 0x7F"
      "unat (ReadARAM paused_machine (0xFFFFFFFF + 3)) = 0x80"
    by (simp_all add: paused_machine_def)
  note at0 = ReadExtraMemory_spaces [of paused_machine 0 2]
  note at1 = ReadExtraMemory_spaces [of paused_machine "0x80001000" "- 1"]
  note at2 = ReadExtraMemory_spaces [of paused_machine "0xFFFFFFFF" 2]
  from at0 bytes have "unat (fst (ReadExtraMemory paused_machine 1 0)) = unat (0x7E7F8081 :: u32)"
    by simp
  then have v0: "fst (ReadExtraMemory paused_machine 1 0) = 0x7E7F8081"
    by (simp only: word_unat_eq_iff)
  from at2 wrapped have "unat (fst (ReadExtraMemory paused_machine 1 0xFFFFFFFF)) = unat (0x7D7E7F80 :: u32)"
    by simp
  then have v1: "fst (ReadExtraMemory paused_machine 1 0xFFFFFFFF) = 0x7D7E7F80"
    by (simp only: word_unat_eq_iff)
  from at0 have o0: "ReadExtraMemory paused_machine 2 0 = (0, {})" by simp
  from at1 have o1: "ReadExtraMemory paused_machine (- 1) 0x80001000 = (0, {})" by simp
  from at1 rm have z: "ReadExtraMemory paused_machine 0 0x80001000 = (0x0400ABCD, {U32_read 0x80001000})"
    by simp
  from z v0 v1 o0 o1 show ?thesis by simp
qed

lemma hex_digit_value_nth:
  assumes "k < 16"
  shows "hex_digit_value (''0123456789ABCDEF'' ! k) = k"
proof -
  from assms have "k = 0 \<or> k = 1 \<or> k = 2 \<or> k = 3 \<or> k = 4 \<or> k = 5 \<or> k = 6 \<or> k = 7 \<or>
      k = 8 \<or> k = 9 \<or> k = 10 \<or> k = 11 \<or> k = 12 \<or> k = 13 \<or> k = 14 \<or> k = 15"
    by arith
  then show ?thesis
    by (elim disjE) (simp_all add: hex_digit_value_def)
qed

lemma hex_value_snoc: "hex_value (s @ [c]) = 16 * hex_value s + hex_digit_value c"
  by (simp add: hex_value_def)

lemma hex_value_hex_upper: "hex_value (hex_upper n) = n"
proof (induction n rule: hex_upper.induct)
  case (1 n)
  show ?case
  proof (cases "n < 16")
    case True
    then show ?thesis
      by (simp add: hex_upper.simps [of n] hex_value_def hex_digit_value_nth)
  next
    case False
    with 1 have "hex_value (hex_upper (n div 16)) = n div 16" by simp
    with False show ?thesis
      by (simp add: hex_upper.simps [of n] hex_value_snoc hex_digit_value_nth)
  qed
qed

lemma hex_value_zeros: "hex_value (replicate k CHR ''0'' @ s) = hex_value s"
proof -
  have "foldl (\<lambda>acc c. 16 * acc + hex_digit_value c) 0 (replicate k CHR ''0'') = 0"
    by (induction k) (simp_all add: hex_digit_value_def)
  then show ?thesis by (simp add: hex_value_def)
qed

lemma set_hex_upper: "set (hex_upper n) \<subseteq> set ''0123456789ABCDEF''"
proof (induction n rule: hex_upper.induct)
  case (1 n)
  have d: "''0123456789ABCDEF'' ! k \<in> set ''0123456789ABCDEF''" if "k < 16" for k
    using that by (intro nth_mem) simp
  show ?case
  proof (cases "n < 16")
    case True
    with d [of n] show ?thesis
      by (simp add: hex_upper.simps [of n])
  next
    case False
    with 1 have "set (hex_upper (n div 16)) \<subseteq> set ''0123456789ABCDEF''" by simp
    moreover have "''0123456789ABCDEF'' ! (n mod 16) \<in> set ''0123456789ABCDEF''"
      by (rule d) simp
    ultimately show ?thesis using False
      by (simp add: hex_upper.simps [of n])
  qed
qed

lemma length_hex_upper: "n < 16 ^ k \<Longrightarrow> 0 < k \<Longrightarrow> length (hex_upper n) \<le> k"
proof (induction n arbitrary: k rule: hex_upper.induct)
  case (1 n)
  show ?case
  proof (cases "n < 16")
    case True
    with "1.prems" show ?thesis
      by (simp add: hex_upper.simps [of n])
  next
    case False
    obtain j where k: "k = Suc j" using "1.prems"(2) by (cases k) auto
    from False "1.prems"(1) k have "0 < j" by (cases j) auto
    moreover from "1.prems"(1) k have "n div 16 < 16 ^ j"
      by (simp add: less_mult_imp_div_less mult.commute)
    ultimately have "length (hex_upper (n div 16)) \<le> j"
      using "1.IH" False by simp
    with False k show ?thesis
      by (simp add: hex_upper.simps [of n])
  qed
qed

lemma format_08X:
  fixes x :: u32
  shows "take 8 (StringFromFormat_08X_s x s) = zero_pad 8 (hex_upper (unat x))"
    and "drop 8 (StringFromFormat_08X_s x s) = s"
    and "length (zero_pad 8 (hex_upper (unat x))) = 8"
    and "set (zero_pad 8 (hex_upper (unat x))) \<subseteq> set ''0123456789ABCDEF''"
    and "hex_value (zero_pad 8 (hex_upper (unat x))) = unat x"
proof -
  have "unat x < 2 ^ 32" using unsigned_less [of x, where 'a = nat] by simp
  then have "unat x < 16 ^ 8" by simp
  then have "length (hex_upper (unat x)) \<le> 8" by (rule length_hex_upper) simp
  then show len: "length (zero_pad 8 (hex_upper (unat x))) = 8"
    by (simp add: zero_pad_def)
  then show "take 8 (StringFromFormat_08X_s x s) = zero_pad 8 (hex_upper (unat x))"
    and "drop 8 (StringFromFormat_08X_s x s) = s"
    by (simp_all add: StringFromFormat_08X_s_def)
  show "set (zero_pad 8 (hex_upper (unat x))) \<subseteq> set ''0123456789ABCDEF''"
    using set_hex_upper [of "unat x"] by (auto simp: zero_pad_def)
  show "hex_value (zero_pad 8 (hex_upper (unat x))) = unat x"
    by (simp add: zero_pad_def hex_value_zeros hex_value_hex_upper)
qed

lemma format_zero: "StringFromFormat_08X_s 0 s = ''00000000'' @ s"
  by (simp add: StringFromFormat_08X_s_def zero_pad_def hex_upper.simps [of 0] numeral_eq_Suc)

lemma format_not_dashes: "StringFromFormat_08X_s x s \<noteq> ''--ARAM--''"
proof
  assume eq: "StringFromFormat_08X_s x s = ''--ARAM--''"
  have "set (take 8 (StringFromFormat_08X_s x s)) \<subseteq> set ''0123456789ABCDEF''"
    by (simp only: format_08X)
  with eq show False by simp
qed

text \<open>
  C6, as the code has it. \<open>GetRawMemoryString\<close> returns \<open><unknwn>\<close> when the machine
  is not alive. When it is alive, the space is the primary one (0) and the address is
  not valid RAM, it returns eight dashes. When it is alive and the space is nonzero, or
  the address is valid RAM, the result is eight upper-case hexadecimal digits that show
  the value of \<open>ReadExtraMemory\<close>, followed by \<open> (ARAM)\<close> exactly when the space is
  nonzero. The literal \<open>--ARAM--\<close> is never returned: a nonzero space is formatted
  whatever the validity of the address.
\<close>

theorem GetRawMemoryString_cases:
  "(\<not> IsAlive m \<longrightarrow> GetRawMemoryString m memory a = (''<unknwn>'', {})) \<and>
   (IsAlive m \<and> memory = 0 \<and> \<not> HostIsRAMAddress m a \<longrightarrow>
      fst (GetRawMemoryString m memory a) = ''--------'') \<and>
   (IsAlive m \<and> (memory \<noteq> 0 \<or> HostIsRAMAddress m a) \<longrightarrow>
      length (take 8 (fst (GetRawMemoryString m memory a))) = 8 \<and>
      set (take 8 (fst (GetRawMemoryString m memory a))) \<subseteq> set ''0123456789ABCDEF'' \<and>
      hex_value (take 8 (fst (GetRawMemoryString m memory a))) =
        unat (fst (ReadExtraMemory m memory a)) \<and>
      drop 8 (fst (GetRawMemoryString m memory a)) = (if memory \<noteq> 0 then '' (ARAM)'' else '''')) \<and>
   fst (GetRawMemoryString m memory a) \<noteq> ''--ARAM--''"
proof -
  have dead: "\<not> IsAlive m \<longrightarrow> GetRawMemoryString m memory a = (''<unknwn>'', {})"
    by (simp add: GetRawMemoryString_def)
  have invalid: "IsAlive m \<and> memory = 0 \<and> \<not> HostIsRAMAddress m a \<longrightarrow>
      fst (GetRawMemoryString m memory a) = ''--------''"
    by (simp add: GetRawMemoryString_def)
  have fmt: "fst (GetRawMemoryString m memory a) =
      StringFromFormat_08X_s (fst (ReadExtraMemory m memory a))
        (if memory \<noteq> 0 then '' (ARAM)'' else '''')"
    if "IsAlive m" and "memory \<noteq> 0 \<or> HostIsRAMAddress m a"
    using that by (auto simp: GetRawMemoryString_def Let_def)
  have shown: "IsAlive m \<and> (memory \<noteq> 0 \<or> HostIsRAMAddress m a) \<longrightarrow>
      length (take 8 (fst (GetRawMemoryString m memory a))) = 8 \<and>
      set (take 8 (fst (GetRawMemoryString m memory a))) \<subseteq> set ''0123456789ABCDEF'' \<and>
      hex_value (take 8 (fst (GetRawMemoryString m memory a))) =
        unat (fst (ReadExtraMemory m memory a)) \<and>
      drop 8 (fst (GetRawMemoryString m memory a)) = (if memory \<noteq> 0 then '' (ARAM)'' else '''')"
  proof (intro impI, elim conjE)
    assume h: "IsAlive m" "memory \<noteq> 0 \<or> HostIsRAMAddress m a"
    note f = fmt [OF h]
    have eight: "length (take 8 (fst (GetRawMemoryString m memory a))) = 8"
      by (simp only: f format_08X)
    have digits: "set (take 8 (fst (GetRawMemoryString m memory a))) \<subseteq> set ''0123456789ABCDEF''"
      by (simp only: f format_08X)
    have shows_value: "hex_value (take 8 (fst (GetRawMemoryString m memory a))) =
        unat (fst (ReadExtraMemory m memory a))"
      by (simp only: f format_08X)
    have rest: "drop 8 (fst (GetRawMemoryString m memory a)) =
        (if memory \<noteq> 0 then '' (ARAM)'' else '''')"
      by (simp only: f format_08X)
    from eight digits shows_value rest
    show "length (take 8 (fst (GetRawMemoryString m memory a))) = 8 \<and>
      set (take 8 (fst (GetRawMemoryString m memory a))) \<subseteq> set ''0123456789ABCDEF'' \<and>
      hex_value (take 8 (fst (GetRawMemoryString m memory a))) =
        unat (fst (ReadExtraMemory m memory a)) \<and>
      drop 8 (fst (GetRawMemoryString m memory a)) = (if memory \<noteq> 0 then '' (ARAM)'' else '''')"
      by blast
  qed
  have never: "fst (GetRawMemoryString m memory a) \<noteq> ''--ARAM--''"
  proof (cases "IsAlive m")
    case False
    then show ?thesis by (simp add: GetRawMemoryString_def)
  next
    case True
    show ?thesis
    proof (cases "memory \<noteq> 0 \<or> HostIsRAMAddress m a")
      case True
      from fmt [OF \<open>IsAlive m\<close> True] show ?thesis
        by (simp only: format_not_dashes not_False_eq_True)
    next
      case False
      with \<open>IsAlive m\<close> show ?thesis by (simp add: GetRawMemoryString_def)
    qed
  qed
  from dead invalid shown never show ?thesis by blast
qed

theorem GetRawMemoryString_cases_witness:
  "GetRawMemoryString stopped_machine 0 0x80001000 = (''<unknwn>'', {}) \<and>
   fst (GetRawMemoryString paused_machine 0 0x1000) = ''--------'' \<and>
   take 8 (fst (GetRawMemoryString paused_machine 0 0x80001000)) = ''0400ABCD'' \<and>
   drop 8 (fst (GetRawMemoryString paused_machine 0 0x80001000)) = '''' \<and>
   drop 8 (fst (GetRawMemoryString paused_machine 1 0x1000)) = '' (ARAM)''"
proof -
  have dead: "\<not> IsAlive stopped_machine" by (simp add: machine_defs)
  have alive: "IsAlive paused_machine" by (simp add: machine_defs)
  have invalid: "\<not> HostIsRAMAddress paused_machine 0x1000" by (simp add: machine_defs)
  have valid: "HostIsRAMAddress paused_machine 0x80001000" by (simp add: machine_defs)
  from dead GetRawMemoryString_cases [of stopped_machine 0 "0x80001000"]
  have 1: "GetRawMemoryString stopped_machine 0 0x80001000 = (''<unknwn>'', {})" by blast
  from alive invalid GetRawMemoryString_cases [of paused_machine 0 "0x1000"]
  have 2: "fst (GetRawMemoryString paused_machine 0 0x1000) = ''--------''" by blast
  from alive valid GetRawMemoryString_cases [of paused_machine 0 "0x80001000"]
  have 3: "drop 8 (fst (GetRawMemoryString paused_machine 0 0x80001000)) = ''''" by simp
  from alive GetRawMemoryString_cases [of paused_machine 1 "0x1000"]
  have 4: "drop 8 (fst (GetRawMemoryString paused_machine 1 0x1000)) = '' (ARAM)''" by simp
  have 5: "take 8 (fst (GetRawMemoryString paused_machine 0 0x80001000)) = ''0400ABCD''"
    by (simp add: GetRawMemoryString_def ReadExtraMemory_def StringFromFormat_08X_s_def
        zero_pad_def machine_defs hex_upper.simps)
  from 1 2 3 4 5 show ?thesis by simp
qed

text \<open>
  C6 as stated fails for a secondary space at an address that is not valid RAM: the
  result is the formatted audio-RAM word, not \<open>--ARAM--\<close>.
\<close>

theorem GetRawMemoryString_cases_counterexample:
  "IsAlive paused_machine \<and> \<not> HostIsRAMAddress paused_machine 0x1000 \<and>
   GetRawMemoryString paused_machine 1 0x1000 =
     (''7E7F8081 (ARAM)'',
      {ARAM_read 0x1000, ARAM_read 0x1001, ARAM_read 0x1002, ARAM_read 0x1003}) \<and>
   fst (GetRawMemoryString paused_machine 1 0x1000) \<noteq> ''--ARAM--''"
  by (simp add: GetRawMemoryString_def ReadExtraMemory_def StringFromFormat_08X_s_def
      zero_pad_def machine_defs hex_upper.simps)

text \<open>
  C10. On a machine that is alive, for every space that is neither 0 nor 1 and every
  address, valid or not, \<open>GetRawMemoryString\<close> returns exactly \<open>00000000 (ARAM)\<close>, and
  it makes no access to the emulated memory: no validity query and no read.
\<close>

theorem GetRawMemoryString_unknown_space:
  assumes "IsAlive m" and "memory \<noteq> 0" and "memory \<noteq> 1"
  shows "GetRawMemoryString m memory a = (''00000000 (ARAM)'', {})"
  using assms by (simp add: GetRawMemoryString_def ReadExtraMemory_def format_zero)

theorem GetRawMemoryString_unknown_space_witness:
  "GetRawMemoryString paused_machine 2 0x1000 = (''00000000 (ARAM)'', {}) \<and>
   GetRawMemoryString paused_machine (- 1) 0x80001000 = (''00000000 (ARAM)'', {}) \<and>
   GetRawMemoryString running_machine 7 0 = (''00000000 (ARAM)'', {})"
proof -
  have alive: "IsAlive paused_machine" "IsAlive running_machine" by (simp_all add: machine_defs)
  have ne: "(2 :: s32) \<noteq> 0" "(2 :: s32) \<noteq> 1" "(- 1 :: s32) \<noteq> 0" "(- 1 :: s32) \<noteq> 1"
      "(7 :: s32) \<noteq> 0" "(7 :: s32) \<noteq> 1"
    by simp_all
  from GetRawMemoryString_unknown_space [OF alive(1) ne(1) ne(2), of "0x1000"]
    GetRawMemoryString_unknown_space [OF alive(1) ne(3) ne(4), of "0x80001000"]
    GetRawMemoryString_unknown_space [OF alive(2) ne(5) ne(6), of 0]
  show ?thesis by simp
qed

section \<open>Colours\<close>

lemma GetColor_inputs:
  "fst (GetColor m a) =
     (if \<not> IsAlive m then 0xFFFFFF
      else if \<not> HostIsRAMAddress m a then 0xeeeeee
      else case GetSymbolFromAddr m a of
             None \<Rightarrow> 0xFFFFFF
           | Some symbol \<Rightarrow>
               if symbol_type symbol \<noteq> Function then 0xEEEEFF
               else colors ! (index symbol mod 6))"
  by (simp add: GetColor_def split: option.split)

lemma mod_6_of_difference:
  fixes i j :: nat
  assumes "6 dvd (int i - int j)"
  shows "i mod 6 = j mod 6"
proof -
  from assms have "int i mod 6 = int j mod 6"
    by (simp add: mod_eq_dvd_iff)
  then have "int (i mod 6) = int (j mod 6)"
    by (simp add: zmod_int)
  then show ?thesis by (simp only: of_nat_eq_iff)
qed

text \<open>
  C8. The colour is determined by the liveness flag, the RAM-validity of the address and
  the symbol found: two calls that agree on the three return the same colour. For a
  function symbol (machine alive, address valid) the colour is the palette entry at
  \<open>index mod 6\<close>, which is inside the six-entry palette; so two function symbols whose
  indices differ by a multiple of 6 get the same colour.
\<close>

theorem GetColor_palette:
  "(IsAlive m = IsAlive m' \<and> HostIsRAMAddress m a = HostIsRAMAddress m' a' \<and>
      GetSymbolFromAddr m a = GetSymbolFromAddr m' a' \<longrightarrow>
        fst (GetColor m a) = fst (GetColor m' a')) \<and>
   (IsAlive m \<and> HostIsRAMAddress m a \<and> GetSymbolFromAddr m a = Some s \<and>
      symbol_type s = Function \<longrightarrow>
        index s mod 6 < length colors \<and> fst (GetColor m a) = colors ! (index s mod 6)) \<and>
   (IsAlive m \<and> HostIsRAMAddress m a \<and> GetSymbolFromAddr m a = Some s \<and>
      symbol_type s = Function \<and>
    IsAlive m' \<and> HostIsRAMAddress m' a' \<and> GetSymbolFromAddr m' a' = Some s' \<and>
      symbol_type s' = Function \<and>
    6 dvd (int (index s) - int (index s')) \<longrightarrow>
        fst (GetColor m a) = fst (GetColor m' a'))"
proof -
  have same: "fst (GetColor m a) = fst (GetColor m' a')"
    if "IsAlive m = IsAlive m'" and "HostIsRAMAddress m a = HostIsRAMAddress m' a'"
      and "GetSymbolFromAddr m a = GetSymbolFromAddr m' a'"
    unfolding GetColor_inputs using that by simp
  have pal: "index s mod 6 < length colors \<and> fst (GetColor m a) = colors ! (index s mod 6)"
    if "IsAlive m" and "HostIsRAMAddress m a" and "GetSymbolFromAddr m a = Some s"
      and "symbol_type s = Function" for m a s
    unfolding GetColor_inputs using that by (simp add: colors_def)
  have cyc: "fst (GetColor m a) = fst (GetColor m' a')"
    if "IsAlive m" and "HostIsRAMAddress m a" and "GetSymbolFromAddr m a = Some s"
      and "symbol_type s = Function"
      and "IsAlive m'" and "HostIsRAMAddress m' a'" and "GetSymbolFromAddr m' a' = Some s'"
      and "symbol_type s' = Function"
      and "6 dvd (int (index s) - int (index s'))"
  proof -
    from that(9) have "index s mod 6 = index s' mod 6" by (rule mod_6_of_difference)
    with pal [OF that(1-4)] pal [OF that(5-8)] show ?thesis by simp
  qed
  from same pal cyc show ?thesis by blast
qed

theorem GetColor_palette_witness:
  "fst (GetColor paused_machine 0x80001000) = 0xFFd0FF \<and>
   fst (GetColor paused_machine 0x80001004) = 0xFFd0FF \<and>
   fst (GetColor running_machine 0x80001004) = fst (GetColor paused_machine 0x80001004)"
proof -
  have alive: "IsAlive paused_machine" "IsAlive running_machine"
    by (simp_all add: machine_defs)
  have ram: "HostIsRAMAddress paused_machine 0x80001000" "HostIsRAMAddress paused_machine 0x80001004"
      "HostIsRAMAddress running_machine 0x80001004"
    by (simp_all add: machine_defs)
  have sym3: "GetSymbolFromAddr paused_machine 0x80001000 = Some \<lparr>symbol_type = Function, index = 3\<rparr>"
    by (simp add: machine_defs)
  have sym9: "GetSymbolFromAddr paused_machine 0x80001004 = Some \<lparr>symbol_type = Function, index = 9\<rparr>"
      "GetSymbolFromAddr running_machine 0x80001004 = Some \<lparr>symbol_type = Function, index = 9\<rparr>"
    by (simp_all add: machine_defs)
  have fn: "symbol_type \<lparr>symbol_type = Function, index = 3\<rparr> = Function"
      "symbol_type \<lparr>symbol_type = Function, index = 9\<rparr> = Function"
    by simp_all
  have diff: "6 dvd (int (index \<lparr>symbol_type = Function, index = 3\<rparr>) -
      int (index \<lparr>symbol_type = Function, index = 9\<rparr>))"
    by simp
  note at = GetColor_palette [of paused_machine paused_machine "0x80001000" "0x80001004"
      "\<lparr>symbol_type = Function, index = 3\<rparr>" "\<lparr>symbol_type = Function, index = 9\<rparr>"]
  note det = GetColor_palette [of running_machine paused_machine "0x80001004" "0x80001004"
      "\<lparr>symbol_type = Function, index = 9\<rparr>" "\<lparr>symbol_type = Function, index = 9\<rparr>"]
  from at alive(1) ram(1) sym3 fn(1)
  have c3: "fst (GetColor paused_machine 0x80001000) = colors ! (3 mod 6)"
    by simp
  from at alive(1) ram(1) ram(2) sym3 sym9(1) fn diff
  have same: "fst (GetColor paused_machine 0x80001000) = fst (GetColor paused_machine 0x80001004)"
    by blast
  from det alive ram(2) ram(3) sym9
  have again: "fst (GetColor running_machine 0x80001004) = fst (GetColor paused_machine 0x80001004)"
    by simp
  from c3 same again show ?thesis by (simp add: colors_def)
qed

text \<open>
  C9, as the code has it. The colours outside the palette are \<open>0xFFFFFF\<close> for a machine
  that is not alive, \<open>0xEEEEEE\<close> for an address that is not valid RAM, \<open>0xFFFFFF\<close> again
  when no symbol owns the address, and \<open>0xEEEEFF\<close> for a symbol that is not a function.
  These are three distinct values: the not-alive case and the no-symbol case share one.
\<close>

theorem GetColor_neutral_colors:
  "(\<not> IsAlive m \<longrightarrow> fst (GetColor m a) = 0xFFFFFF) \<and>
   (IsAlive m \<and> \<not> HostIsRAMAddress m a \<longrightarrow> fst (GetColor m a) = 0xEEEEEE) \<and>
   (IsAlive m \<and> HostIsRAMAddress m a \<and> GetSymbolFromAddr m a = None \<longrightarrow>
      fst (GetColor m a) = 0xFFFFFF) \<and>
   (IsAlive m \<and> HostIsRAMAddress m a \<and> GetSymbolFromAddr m a = Some s \<and>
      symbol_type s \<noteq> Function \<longrightarrow> fst (GetColor m a) = 0xEEEEFF) \<and>
   distinct [0xFFFFFF, 0xEEEEEE, 0xEEEEFF :: int]"
  unfolding GetColor_inputs by simp

theorem GetColor_neutral_colors_witness:
  "fst (GetColor stopped_machine 0x80001000) = 0xFFFFFF \<and>
   fst (GetColor paused_machine 0x1000) = 0xEEEEEE \<and>
   fst (GetColor paused_machine 0x8000100C) = 0xFFFFFF \<and>
   fst (GetColor paused_machine 0x80001008) = 0xEEEEFF"
proof -
  have dead: "\<not> IsAlive stopped_machine" by (simp add: machine_defs)
  have alive: "IsAlive paused_machine" by (simp add: machine_defs)
  have ram: "\<not> HostIsRAMAddress paused_machine 0x1000" "HostIsRAMAddress paused_machine 0x8000100C"
      "HostIsRAMAddress paused_machine 0x80001008"
    by (simp_all add: machine_defs)
  have none: "GetSymbolFromAddr paused_machine 0x8000100C = None"
    by (simp add: machine_defs)
  have data: "GetSymbolFromAddr paused_machine 0x80001008 = Some \<lparr>symbol_type = Data, index = 4\<rparr>"
    by (simp add: machine_defs)
  from dead GetColor_neutral_colors [of stopped_machine "0x80001000"]
  have 1: "fst (GetColor stopped_machine 0x80001000) = 0xFFFFFF" by blast
  from alive ram(1) GetColor_neutral_colors [of paused_machine "0x1000"]
  have 2: "fst (GetColor paused_machine 0x1000) = 0xEEEEEE" by blast
  from alive ram(2) none GetColor_neutral_colors [of paused_machine "0x8000100C"]
  have 3: "fst (GetColor paused_machine 0x8000100C) = 0xFFFFFF" by blast
  from alive ram(3) data
    GetColor_neutral_colors [of paused_machine "0x80001008" "\<lparr>symbol_type = Data, index = 4\<rparr>"]
  have 4: "fst (GetColor paused_machine 0x80001008) = 0xEEEEFF" by simp
  from 1 2 3 4 show ?thesis by blast
qed

text \<open>
  C9 as stated fails: a machine that is not alive, and a live machine at a valid address
  that no symbol owns, get the same colour.
\<close>

theorem GetColor_neutral_colors_counterexample:
  "\<not> IsAlive stopped_machine \<and>
   IsAlive paused_machine \<and> HostIsRAMAddress paused_machine 0x8000100C \<and>
   GetSymbolFromAddr paused_machine 0x8000100C = None \<and>
   fst (GetColor stopped_machine 0x8000100C) = fst (GetColor paused_machine 0x8000100C)"
  by (simp add: GetColor_def machine_defs)

end
